theory Spec2Isabelle
  imports Complex_Main
begin

section \<open>Python values used by app.py\<close>

subsection \<open>Strings\<close>

text \<open>
  A Python \<open>str\<close> is a sequence of Unicode code points, so it is modelled as a list of
  code points. \<open>ascii\<close> turns an ASCII literal into such a list; the few non-ASCII
  characters of the source's literals are written as code points.
\<close>

type_synonym pystr = "nat list"

definition ascii :: "string \<Rightarrow> pystr" where
  "ascii s = map of_char s"

text \<open>
  \<open>str.isspace\<close> per character: CPython's whitespace table (Python 3.10+).
\<close>

definition str_isspace :: "nat \<Rightarrow> bool" where
  "str_isspace c =
     (c \<in> {0x9, 0xA, 0xB, 0xC, 0xD, 0x1C, 0x1D, 0x1E, 0x1F, 0x20, 0x85, 0xA0, 0x1680}
      \<or> (0x2000 \<le> c \<and> c \<le> 0x200A)
      \<or> c \<in> {0x2028, 0x2029, 0x202F, 0x205F, 0x3000})"

text \<open>\<open>str.strip()\<close>: drop leading and trailing whitespace.\<close>

definition str_strip :: "pystr \<Rightarrow> pystr" where
  "str_strip s = rev (dropWhile str_isspace (rev (dropWhile str_isspace s)))"

definition ascii_lower :: "nat \<Rightarrow> nat" where
  "ascii_lower c = (if 65 \<le> c \<and> c \<le> 90 then c + 32 else c)"

definition is_ascii :: "pystr \<Rightarrow> bool" where
  "is_ascii s = list_all (\<lambda>c. c < 128) s"

subsection \<open>JSON values\<close>

text \<open>
  What \<open>resp.json()\<close> can return, and what a \<open>Dict[str, Any]\<close> holds. A dict is an
  association list in insertion order; the keys of a dict are distinct, so a lookup finds
  the one entry of its key. A float is modelled by the real number it denotes.
\<close>

datatype json =
    JNull
  | JBool bool
  | JInt int
  | JFloat real
  | JStr pystr
  | JArr "json list"
  | JObj "(pystr \<times> json) list"

text \<open>Python truthiness, as the operators \<open>and\<close>, \<open>or\<close>, \<open>not\<close> test it.\<close>

fun truthy :: "json \<Rightarrow> bool" where
  "truthy JNull = False"
| "truthy (JBool b) = b"
| "truthy (JInt n) = (n \<noteq> 0)"
| "truthy (JFloat x) = (x \<noteq> 0)"
| "truthy (JStr s) = (s \<noteq> [])"
| "truthy (JArr xs) = (xs \<noteq> [])"
| "truthy (JObj kvs) = (kvs \<noteq> [])"

text \<open>\<open>a or b\<close>: the first operand when it is truthy, the second otherwise.\<close>

definition py_or :: "json \<Rightarrow> json \<Rightarrow> json" where
  "py_or a b = (if truthy a then a else b)"

text \<open>\<open>d.get(k)\<close>: the value stored under \<open>k\<close>, \<open>None\<close> when the key is missing.\<close>

definition dict_get :: "(pystr \<times> json) list \<Rightarrow> pystr \<Rightarrow> json" where
  "dict_get d k = (case map_of d k of None \<Rightarrow> JNull | Some v \<Rightarrow> v)"

text \<open>The name of a value's Python type, as it appears in an \<open>AttributeError\<close>.\<close>

fun type_name :: "json \<Rightarrow> pystr" where
  "type_name JNull = ascii ''NoneType''"
| "type_name (JBool b) = ascii ''bool''"
| "type_name (JInt n) = ascii ''int''"
| "type_name (JFloat x) = ascii ''float''"
| "type_name (JStr s) = ascii ''str''"
| "type_name (JArr xs) = ascii ''list''"
| "type_name (JObj kvs) = ascii ''dict''"

subsection \<open>The environment\<close>

text \<open>
  The network is state: \<open>world\<close> is the log of the POST requests issued so far, each
  a URL and a JSON payload. What \<open>requests.post\<close> answers may depend on the log.
\<close>

type_synonym request = "pystr \<times> json"

type_synonym world = "request list"

text \<open>
  An exception of the \<open>requests\<close> library raised by \<open>requests.post\<close>, carrying
  \<open>str(e)\<close>.
\<close>

datatype net_error =
    Timeout pystr
  | ConnectionError pystr
  | RequestException pystr

fun net_error_str :: "net_error \<Rightarrow> pystr" where
  "net_error_str (Timeout m) = m"
| "net_error_str (ConnectionError m) = m"
| "net_error_str (RequestException m) = m"

text \<open>
  A \<open>requests.Response\<close>: the status code, the text of the \<open>HTTPError\<close> that
  \<open>raise_for_status\<close> raises for it, and what \<open>.json()\<close> gives: the parsed body, or
  the text of the \<open>JSONDecodeError\<close> when the body is not JSON.
\<close>

record response =
  status_code :: nat
  http_error_text :: pystr
  json_body :: "pystr + json"

text \<open>
  Everything app.py uses that lives outside the repository is a field of \<open>env\<close>:
  \<^item> \<open>unicode_lower\<close>: \<open>str.lower()\<close> on a string with a non-ASCII character (the
    Unicode case tables);
  \<^item> \<open>str_other\<close>: \<open>str(v)\<close> for a value that is not a \<open>str\<close>;
  \<^item> \<open>lax_float\<close>, \<open>lax_bool\<close>: pydantic's coercion of a value that is neither
    \<open>None\<close> nor already of the field's type, \<open>None\<close> when pydantic rejects it;
  \<^item> \<open>validation_text\<close>: the text of pydantic's \<open>ValidationError\<close> for the three
    validated inputs of an \<open>InfraResult\<close>;
  \<^item> \<open>requests_post\<close>: the outcome of \<open>requests.post(url, json=payload, timeout=20)\<close>;
  \<^item> \<open>WIR_API\<close>, \<open>WIR_UNIQ\<close>: the two environment variables read at start-up.
\<close>

record env =
  unicode_lower :: "pystr \<Rightarrow> pystr"
  str_other :: "json \<Rightarrow> pystr"
  lax_float :: "json \<Rightarrow> real option"
  lax_bool :: "json \<Rightarrow> bool option"
  validation_text :: "json \<Rightarrow> json \<Rightarrow> json \<Rightarrow> pystr"
  requests_post :: "world \<Rightarrow> request \<Rightarrow> net_error + response"
  WIR_API :: pystr
  WIR_UNIQ :: pystr

text \<open>
  \<open>str.lower()\<close>: CPython lowers an all-ASCII string character by character and
  sends every other string through the Unicode tables.
\<close>

definition str_lower :: "env \<Rightarrow> pystr \<Rightarrow> pystr" where
  "str_lower e s = (if is_ascii s then map ascii_lower s else unicode_lower e s)"

text \<open>\<open>str(v)\<close>.\<close>

definition py_str :: "env \<Rightarrow> json \<Rightarrow> pystr" where
  "py_str e v = (case v of JStr s \<Rightarrow> s | _ \<Rightarrow> str_other e v)"

section \<open>Data models\<close>

record Address =
  il :: pystr
  ilce :: pystr
  mahalle :: "pystr option"
  cadde_sokak :: "pystr option"
  bina_no :: "pystr option"
  daire :: "pystr option"
  tt_adres_kodu :: "pystr option"

text \<open>
  The validator of \<open>il\<close> and \<open>ilce\<close>. \<open>Inl\<close> is the \<open>ValueError\<close> it raises.
\<close>

definition non_empty :: "pystr \<Rightarrow> pystr + pystr" where
  "non_empty v =
     (let v' = str_strip (if v \<noteq> [] then v else [])
      in if v' = [] then Inl (ascii ''Bu alan zorunludur'') else Inr v')"

text \<open>
  pydantic runs the validator on both fields and raises one \<open>ValidationError\<close> naming
  every field that failed.
\<close>

datatype error = ValidationError "pystr list"

definition Address_new ::
  "pystr \<Rightarrow> pystr \<Rightarrow> pystr option \<Rightarrow> pystr option \<Rightarrow> pystr option \<Rightarrow> pystr option
     \<Rightarrow> pystr option \<Rightarrow> error + Address" where
  "Address_new il' ilce' mahalle' cadde_sokak' bina_no' daire' tt_adres_kodu' =
     (case (non_empty il', non_empty ilce') of
        (Inr i, Inr c) \<Rightarrow>
          Inr \<lparr>il = i, ilce = c, mahalle = mahalle', cadde_sokak = cadde_sokak',
               bina_no = bina_no', daire = daire', tt_adres_kodu = tt_adres_kodu'\<rparr>
      | (Inl _, Inr _) \<Rightarrow> Inl (ValidationError [ascii ''il''])
      | (Inr _, Inl _) \<Rightarrow> Inl (ValidationError [ascii ''ilce''])
      | (Inl _, Inl _) \<Rightarrow> Inl (ValidationError [ascii ''il'', ascii ''ilce'']))"

record InfraResult =
  provider :: pystr
  technology :: pystr
  max_down_mbps :: "real option"
  max_up_mbps :: "real option"
  port_available :: "bool option"
  raw :: "(pystr \<times> json) list"

section \<open>Providers\<close>

subsection \<open>MockProvider\<close>

definition MockProvider_name :: pystr where
  "MockProvider_name = ascii ''Demo (Mock)''"

definition karadeniz :: "pystr set" where
  "karadeniz = {ascii ''rize'', ascii ''artvin'', ascii ''trabzon'', ascii ''giresun'',
                ascii ''ordu'', ascii ''samsun'', ascii ''bartin'', ascii ''kastamonu'',
                ascii ''sinop'', ascii ''zonguldak''}"

definition MockProvider_query :: "env \<Rightarrow> Address \<Rightarrow> InfraResult list" where
  "MockProvider_query e address =
     (let key = str_lower e (il address) @ ascii ''-'' @ str_lower e (ilce address);
          tech = (if str_lower e (il address) \<in> karadeniz then ascii ''Fiber''
                  else ascii ''VDSL'');
          down = (if tech = ascii ''Fiber'' then 1000 else 100);
          up = (if tech = ascii ''Fiber'' then 100 else 8)
      in [\<lparr>provider = MockProvider_name, technology = tech, max_down_mbps = Some down,
           max_up_mbps = Some up, port_available = Some True,
           raw = [(ascii ''rule'', JStr (ascii ''demo''))]\<rparr>])"

subsection \<open>WiradiusTTProvider\<close>

definition WiradiusTTProvider_name :: pystr where
  "WiradiusTTProvider_name = ascii ''Wiradius '' @ [0x2013] @ ascii '' TT VAE (Opsiyonel)''"

text \<open>
  \<open>resp.raise_for_status()\<close> of the \<open>requests\<close> library raises for the status codes
  400 to 599. An exception is represented by \<open>str(e)\<close>, all that the handler reads.
\<close>

definition raise_for_status :: "response \<Rightarrow> pystr + unit" where
  "raise_for_status resp =
     (if 400 \<le> status_code resp \<and> status_code resp < 600 then Inl (http_error_text resp)
      else Inr ())"

text \<open>
  pydantic's validation of an \<open>Optional[float]\<close> and of an \<open>Optional[bool]\<close> field:
  \<open>None\<close> stays \<open>None\<close>, a number becomes a float, a bool stays a bool, and anything
  else is coerced or rejected as the installed pydantic decides. The outer \<open>None\<close> is a
  rejection.
\<close>

definition field_float :: "env \<Rightarrow> json \<Rightarrow> real option option" where
  "field_float e v =
     (case v of
        JNull \<Rightarrow> Some None
      | JInt n \<Rightarrow> Some (Some (of_int n))
      | JFloat x \<Rightarrow> Some (Some x)
      | _ \<Rightarrow> map_option Some (lax_float e v))"

definition field_bool :: "env \<Rightarrow> json \<Rightarrow> bool option option" where
  "field_bool e v =
     (case v of
        JNull \<Rightarrow> Some None
      | JBool b \<Rightarrow> Some (Some b)
      | _ \<Rightarrow> map_option Some (lax_bool e v))"

text \<open>
  \<open>InfraResult(provider=..., technology=..., max_down_mbps=..., max_up_mbps=...,
  port_available=..., raw=...)\<close> on values that come from the upstream service.
  \<open>Inl\<close> is the text of the \<open>ValidationError\<close>.
\<close>

definition InfraResult_new ::
  "env \<Rightarrow> pystr \<Rightarrow> pystr \<Rightarrow> json \<Rightarrow> json \<Rightarrow> json \<Rightarrow> (pystr \<times> json) list
     \<Rightarrow> pystr + InfraResult" where
  "InfraResult_new e provider' technology' max_down max_up port_avail raw' =
     (case (field_float e max_down, field_float e max_up, field_bool e port_avail) of
        (Some d, Some u, Some p) \<Rightarrow>
          Inr \<lparr>provider = provider', technology = technology', max_down_mbps = d,
               max_up_mbps = u, port_available = p, raw = raw'\<rparr>
      | _ \<Rightarrow> Inl (validation_text e max_down max_up port_avail))"

text \<open>
  Lines 93 to 97: the fields read from the parsed body. \<open>data.get\<close> exists on a dict
  only; on any other value the attribute lookup raises \<open>AttributeError\<close>.
\<close>

definition attribute_error :: "json \<Rightarrow> pystr" where
  "attribute_error data =
     ascii [CHR 0x27] @ type_name data @ ascii [CHR 0x27]
       @ ascii '' object has no attribute '' @ ascii [CHR 0x27] @ ascii ''get''
       @ ascii [CHR 0x27]"

definition parse_body :: "env \<Rightarrow> json \<Rightarrow> pystr + InfraResult" where
  "parse_body e data =
     (case data of
        JObj d \<Rightarrow>
          (let tech = py_or (py_or (dict_get d (ascii ''technology''))
                                   (dict_get d (ascii ''tech'')))
                            (JStr (ascii ''Belirsiz''));
               max_down = py_or (dict_get d (ascii ''max_down''))
                                (dict_get d (ascii ''download''));
               max_up = py_or (dict_get d (ascii ''max_up'')) (dict_get d (ascii ''upload''));
               port_avail = dict_get d (ascii ''port_available'')
           in InfraResult_new e WiradiusTTProvider_name (py_str e tech) max_down max_up
                port_avail d)
      | _ \<Rightarrow> Inl (attribute_error data))"

text \<open>Lines 89 to 91: the POST, the status check and the parse of the body.\<close>

definition fetch :: "env \<Rightarrow> world \<Rightarrow> request \<Rightarrow> pystr + json" where
  "fetch e w req =
     (case requests_post e w req of
        Inl err \<Rightarrow> Inl (net_error_str err)
      | Inr resp \<Rightarrow>
          (case raise_for_status resp of
             Inl m \<Rightarrow> Inl m
           | Inr _ \<Rightarrow> json_body resp))"

text \<open>The body of the \<open>try\<close>.\<close>

definition try_body :: "env \<Rightarrow> world \<Rightarrow> request \<Rightarrow> pystr + InfraResult" where
  "try_body e w req =
     (case fetch e w req of
        Inl m \<Rightarrow> Inl m
      | Inr data \<Rightarrow> parse_body e data)"

text \<open>The result built by the \<open>except\<close> clause from \<open>str(e)\<close>.\<close>

definition error_result :: "pystr \<Rightarrow> InfraResult" where
  "error_result m =
     \<lparr>provider = WiradiusTTProvider_name, technology = ascii ''Hata'',
      max_down_mbps = None, max_up_mbps = None, port_available = None,
      raw = [(ascii ''error'', JStr m)]\<rparr>"

definition opt_truthy :: "pystr option \<Rightarrow> bool" where
  "opt_truthy v = (case v of None \<Rightarrow> False | Some s \<Rightarrow> s \<noteq> [])"

definition opt_json :: "pystr option \<Rightarrow> json" where
  "opt_json v = (case v of None \<Rightarrow> JNull | Some s \<Rightarrow> JStr s)"

definition wiradius_request :: "pystr \<Rightarrow> pystr \<Rightarrow> Address \<Rightarrow> request" where
  "wiradius_request api_code uniq_code address =
     (let url = ascii ''https://api.wiradius.com/internet_infrastructure/tt_vae_query/''
                  @ api_code;
          payload = JObj [(ascii ''tt_code'', opt_json (tt_adres_kodu address)),
                          (ascii ''uniq_code'', JStr uniq_code)]
      in (url, payload))"

text \<open>
  \<open>WiradiusTTProvider(api_code, uniq_code).query(address)\<close> in the world \<open>w\<close>: the
  results and the world after the call, where the request made is appended to the log.
\<close>

definition WiradiusTTProvider_query ::
  "env \<Rightarrow> pystr \<Rightarrow> pystr \<Rightarrow> Address \<Rightarrow> world \<Rightarrow> InfraResult list \<times> world" where
  "WiradiusTTProvider_query e api_code uniq_code address w =
     (if \<not> (api_code \<noteq> [] \<and> uniq_code \<noteq> [] \<and> opt_truthy (tt_adres_kodu address))
      then ([], w)
      else
        (let req = wiradius_request api_code uniq_code address
         in case try_body e w req of
              Inr r \<Rightarrow> ([r], w @ [req])
            | Inl m \<Rightarrow> ([error_result m], w @ [req])))"

subsection \<open>LinkOutProvider\<close>

definition LinkOutProvider_name :: pystr where
  "LinkOutProvider_name =
     ascii ''Resm'' @ [0xEE] @ ascii '' Sayfalar '' @ [0x2013] @ ascii '' Y'' @ [0xF6]
       @ ascii ''nlendirme''"

definition LINKS :: "(pystr \<times> json) list" where
  "LINKS =
     [(ascii ''T'' @ [0xFC] @ ascii ''rk Telekom Altyap'' @ [0x131] @ ascii '' Sorgu'',
       JStr (ascii ''https://www.turktelekom.com.tr/altyapi-sorgulama'')),
      (ascii ''TT Kapsama Haritas'' @ [0x131],
       JStr (ascii ''https://kapsamaharitasi.turktelekom.com.tr/'')),
      (ascii ''Turkcell Superonline'',
       JStr (ascii ''https://www.superonline.net/altyapi-sorgulama'')),
      (ascii ''Turkcell (Superbox/Altyap'' @ [0x131] @ ascii '')'',
       JStr (ascii ''https://www.turkcell.com.tr/tr/altyapi-sorgulama'')),
      (ascii ''Millenicom'',
       JStr (ascii ''https://www.milleni.com.tr/internet-altyapi-sorgulama'')),
      (ascii ''Netspeed'',
       JStr (ascii ''https://www.netspeed.com.tr/altyapi-sorgula'')),
      (ascii ''BTK '' @ [0x2013] @ ascii '' EHABS (e-Devlet)'',
       JStr (ascii (''https://www.turkiye.gov.tr/''
          @ ''btk-elektronik-haberlesme-altyapi-bilgi-sistemi-ehabs-hizmetleri-4302'')))]"

definition LinkOutProvider_query :: "Address \<Rightarrow> InfraResult list" where
  "LinkOutProvider_query address =
     [\<lparr>provider = LinkOutProvider_name,
       technology = ascii ''Y'' @ [0xF6] @ ascii ''nlendirme'',
       max_down_mbps = None, max_up_mbps = None, port_available = None, raw = LINKS\<rparr>]"

subsection \<open>The provider interface\<close>

text \<open>
  The three subclasses of \<open>Provider\<close> that app.py instantiates, and the dispatch of
  \<open>p.query(address)\<close>. Only the Wiradius provider touches the world. The base class,
  whose \<open>query\<close> raises \<open>NotImplementedError\<close>, is never instantiated.
\<close>

datatype Provider =
    MockProvider
  | WiradiusTTProvider pystr pystr
  | LinkOutProvider

fun query :: "env \<Rightarrow> Provider \<Rightarrow> Address \<Rightarrow> world \<Rightarrow> InfraResult list \<times> world" where
  "query e MockProvider address w = (MockProvider_query e address, w)"
| "query e (WiradiusTTProvider api_code uniq_code) address w =
     WiradiusTTProvider_query e api_code uniq_code address w"
| "query e LinkOutProvider address w = (LinkOutProvider_query address, w)"

section \<open>The query cycle\<close>

text \<open>
  Lines 169 to 174: \<open>results\<close> starts empty and each provider's list is appended to
  it, in the order of \<open>active_providers\<close>. The spinner and the cosmetic sleep of
  0.2 seconds around each call are rendering and are left out.
\<close>

fun query_loop ::
  "env \<Rightarrow> Provider list \<Rightarrow> Address \<Rightarrow> InfraResult list \<Rightarrow> world
     \<Rightarrow> InfraResult list \<times> world" where
  "query_loop e [] address results w = (results, w)"
| "query_loop e (p # ps) address results w =
     (case query e p address w of
        (res, w') \<Rightarrow> query_loop e ps address (results @ res) w')"

text \<open>
  The claim about the aggregate speaks of each provider's own result sequence. That is
  \<open>provider_results\<close>: the list returned by each provider in turn, each called in the
  world that the providers before it left. It is compared with \<open>query_loop\<close> below.
\<close>

fun provider_results :: "env \<Rightarrow> Provider list \<Rightarrow> Address \<Rightarrow> world \<Rightarrow> InfraResult list list" where
  "provider_results e [] a w = []"
| "provider_results e (p # ps) a w =
     fst (query e p a w) # provider_results e ps a (snd (query e p a w))"

text \<open>Lines 159 to 166: the providers of one query.\<close>

definition active_providers :: "env \<Rightarrow> pystr \<Rightarrow> pystr \<Rightarrow> Provider list" where
  "active_providers e wir_api_input wir_uniq_input =
     [MockProvider]
     @ (if wir_api_input \<noteq> [] \<and> wir_uniq_input \<noteq> []
        then [WiradiusTTProvider wir_api_input wir_uniq_input]
        else if WIR_API e \<noteq> [] \<and> WIR_UNIQ e \<noteq> []
        then [WiradiusTTProvider (WIR_API e) (WIR_UNIQ e)]
        else [])
     @ [LinkOutProvider]"

text \<open>
  Lines 155 to 197, the handler of a submitted form, without the rendering: the error
  shown when the form does not validate, or the results to render; and the world after.
  The form's text inputs are strings.
\<close>

definition submitted ::
  "env \<Rightarrow> pystr \<Rightarrow> pystr \<Rightarrow> pystr \<Rightarrow> pystr \<Rightarrow> pystr \<Rightarrow> pystr \<Rightarrow> pystr \<Rightarrow> pystr \<Rightarrow> pystr
     \<Rightarrow> world \<Rightarrow> (error + InfraResult list) \<times> world" where
  "submitted e il' ilce' mahalle' cadde bina_no' daire' tt_kod wir_api_input wir_uniq_input w =
     (case Address_new il' ilce' (Some mahalle') (Some cadde) (Some bina_no') (Some daire')
             (Some tt_kod) of
        Inl err \<Rightarrow> (Inl err, w)
      | Inr address \<Rightarrow>
          (case query_loop e (active_providers e wir_api_input wir_uniq_input) address [] w of
             (results, w') \<Rightarrow> (Inr results, w')))"

section \<open>The invariant of the numeric fields\<close>

text \<open>
  The spec's invariant on an \<open>InfraResult\<close>: a speed that is present is not negative.
  \<open>nonneg_or_null\<close> is the same condition on a JSON value before validation: it is
  \<open>null\<close> or a number that is not negative.
\<close>

definition numeric_fields_nonneg :: "InfraResult \<Rightarrow> bool" where
  "numeric_fields_nonneg r =
     ((case max_down_mbps r of None \<Rightarrow> True | Some x \<Rightarrow> 0 \<le> x)
      \<and> (case max_up_mbps r of None \<Rightarrow> True | Some x \<Rightarrow> 0 \<le> x))"

fun nonneg_or_null :: "json \<Rightarrow> bool" where
  "nonneg_or_null JNull = True"
| "nonneg_or_null (JInt n) = (0 \<le> n)"
| "nonneg_or_null (JFloat x) = (0 \<le> x)"
| "nonneg_or_null v = False"

section \<open>Test doubles\<close>

text \<open>
  An environment whose upstream answers every POST with one fixed outcome, and addresses
  to query. Its coercions reject every value, as pydantic does for the one value that the
  examples send through them, the text \<open>hizli\<close> given as a speed; \<open>str\<close> of a
  value that is not a string is stood in for by the name of its type, and no example
  lowers a string that is not ASCII.
\<close>

definition test_env :: "(net_error + response) \<Rightarrow> env" where
  "test_env outcome =
     \<lparr>unicode_lower = (\<lambda>s. s), str_other = type_name, lax_float = (\<lambda>v. None),
      lax_bool = (\<lambda>v. None), validation_text = (\<lambda>a b c. ascii ''validation error''),
      requests_post = (\<lambda>w req. outcome), WIR_API = [], WIR_UNIQ = []\<rparr>"


definition address_rize_1 :: Address where
  "address_rize_1 =
     \<lparr>il = ascii ''Rize'', ilce = ascii ''Merkez'', mahalle = Some [], cadde_sokak = Some [],
      bina_no = Some [], daire = Some [], tt_adres_kodu = Some []\<rparr>"

definition address_rize_2 :: Address where
  "address_rize_2 =
     \<lparr>il = ascii ''Rize'', ilce = ascii ''Pazar'', mahalle = Some (ascii ''Merkez''),
      cadde_sokak = Some (ascii ''Sahil''), bina_no = Some (ascii ''12''),
      daire = Some (ascii ''3''), tt_adres_kodu = Some (ascii ''1234567890'')\<rparr>"

definition response_ok :: "json \<Rightarrow> response" where
  "response_ok body = \<lparr>status_code = 200, http_error_text = [], json_body = Inr body\<rparr>"



text \<open>Upstream bodies used in the examples.\<close>

definition body_negative :: json where
  "body_negative = JObj [(ascii ''max_down'', JInt (- 5))]"

definition body_fiber :: json where
  "body_fiber =
     JObj [(ascii ''tech'', JStr (ascii ''Fiber'')), (ascii ''download'', JInt 1000),
           (ascii ''max_up'', JFloat 50), (ascii ''port_available'', JBool True)]"



section \<open>MockProvider: classification\<close>


lemma MockProvider_query_eq:
  "MockProvider_query e a =
     [\<lparr>provider = MockProvider_name,
       technology = (if str_lower e (il a) \<in> karadeniz then ascii ''Fiber'' else ascii ''VDSL''),
       max_down_mbps = Some (if str_lower e (il a) \<in> karadeniz then 1000 else 100),
       max_up_mbps = Some (if str_lower e (il a) \<in> karadeniz then 100 else 8),
       port_available = Some True,
       raw = [(ascii ''rule'', JStr (ascii ''demo''))]\<rparr>]"
  by (simp add: MockProvider_query_def Let_def ascii_def)








lemma requests_post_test_env: "requests_post (test_env outcome) w req = outcome"
  by (simp add: test_env_def)

lemma tt_address_rize_1: "tt_adres_kodu address_rize_1 = Some []"
  by (simp add: address_rize_1_def)

lemma tt_address_rize_2: "tt_adres_kodu address_rize_2 = Some (ascii ''1234567890'')"
  by (simp add: address_rize_2_def)

text \<open>
  C10. The result of \<open>MockProvider.query\<close> depends on the province only: two
  addresses with the same province get the same result, whatever their district,
  neighbourhood, street, building number, unit and carrier address code. The \<open>key\<close>
  that \<open>query\<close> computes from the district is never read.
\<close>

theorem mock_province_only:
  "il a = il b \<Longrightarrow> MockProvider_query e a = MockProvider_query e b"
  by (simp add: MockProvider_query_eq)

theorem mock_province_only_witness:
  "il address_rize_1 = il address_rize_2
   \<and> ilce address_rize_1 \<noteq> ilce address_rize_2
   \<and> tt_adres_kodu address_rize_1 \<noteq> tt_adres_kodu address_rize_2
   \<and> MockProvider_query (test_env (Inl (Timeout []))) address_rize_1
       = MockProvider_query (test_env (Inl (Timeout []))) address_rize_2"
proof -
  have h: "il address_rize_1 = il address_rize_2"
    by (simp add: address_rize_1_def address_rize_2_def)
  have d: "ilce address_rize_1 \<noteq> ilce address_rize_2"
    by (simp add: address_rize_1_def address_rize_2_def ascii_def)
  have t: "tt_adres_kodu address_rize_1 \<noteq> tt_adres_kodu address_rize_2"
    by (simp add: address_rize_1_def address_rize_2_def ascii_def)
  from h d t mock_province_only [OF h, of "test_env (Inl (Timeout []))"]
  show ?thesis by (intro conjI)
qed

section \<open>LinkOutProvider\<close>

lemma LINKS_length: "length LINKS = 7"
  by (simp add: LINKS_def)

lemma LINKS_distinct: "distinct (map fst LINKS)"
  by (simp add: LINKS_def ascii_def)

text \<open>
  C8. \<open>LinkOutProvider.query\<close> returns exactly one result, with technology
  \<open>Yonlendirme\<close> (the redirect) and \<open>raw\<close> equal to the whole table
  \<open>LINKS\<close> of seven distinct labels; the result is the same for every address, and
  the call leaves the world as it is: no request is made.
\<close>

theorem linkout_fixed:
  "LinkOutProvider_query a =
     [\<lparr>provider = LinkOutProvider_name,
       technology = ascii ''Y'' @ [0xF6] @ ascii ''nlendirme'',
       max_down_mbps = None, max_up_mbps = None, port_available = None, raw = LINKS\<rparr>]
   \<and> LinkOutProvider_query a = LinkOutProvider_query b
   \<and> query e LinkOutProvider a w = (LinkOutProvider_query a, w)
   \<and> length LINKS = 7 \<and> distinct (map fst LINKS)"
  by (simp add: LinkOutProvider_query_def LINKS_length LINKS_distinct)

section \<open>Purity of the local providers\<close>

text \<open>
  C9. \<open>MockProvider.query\<close> and \<open>LinkOutProvider.query\<close> are pure: a second call
  with the same address, made in the world the first call left, returns the same list;
  the world is left unchanged; and the list does not depend on the world at all.
\<close>

theorem pure_providers_idempotent:
  assumes "p = MockProvider \<or> p = LinkOutProvider"
  shows "fst (query e p a (snd (query e p a w))) = fst (query e p a w)
         \<and> snd (query e p a w) = w
         \<and> fst (query e p a w') = fst (query e p a w)"
  using assms by auto

theorem pure_providers_idempotent_witness:
  "fst (query (test_env (Inl (Timeout []))) MockProvider address_rize_2
          (snd (query (test_env (Inl (Timeout []))) MockProvider address_rize_2 [])))
     = fst (query (test_env (Inl (Timeout []))) MockProvider address_rize_2 [])
   \<and> fst (query (test_env (Inl (Timeout []))) LinkOutProvider address_rize_2
          (snd (query (test_env (Inl (Timeout []))) LinkOutProvider address_rize_2 [])))
     = fst (query (test_env (Inl (Timeout []))) LinkOutProvider address_rize_2 [])"
  using pure_providers_idempotent [of MockProvider "test_env (Inl (Timeout []))" address_rize_2 "[]" "[]"]
    pure_providers_idempotent [of LinkOutProvider "test_env (Inl (Timeout []))" address_rize_2 "[]" "[]"]
  by blast

section \<open>WiradiusTTProvider\<close>

text \<open>
  C3. Whenever the first credential, the second credential or the address's carrier code
  is empty (or the carrier code is \<open>None\<close>), \<open>WiradiusTTProvider.query\<close> returns the
  empty list and the request log is unchanged: no network call is made.
\<close>

theorem remote_inapplicable:
  assumes "api_code = [] \<or> uniq_code = [] \<or> tt_adres_kodu a = None \<or> tt_adres_kodu a = Some []"
  shows "WiradiusTTProvider_query e api_code uniq_code a w = ([], w)"
  using assms by (auto simp: WiradiusTTProvider_query_def opt_truthy_def)

theorem remote_inapplicable_witness:
  "WiradiusTTProvider_query (test_env (Inr (response_ok (JObj [])))) [] (ascii ''u'')
      address_rize_2 [] = ([], [])
   \<and> WiradiusTTProvider_query (test_env (Inr (response_ok (JObj [])))) (ascii ''k'') []
      address_rize_2 [] = ([], [])
   \<and> WiradiusTTProvider_query (test_env (Inr (response_ok (JObj [])))) (ascii ''k'') (ascii ''u'')
      address_rize_1 [] = ([], [])"
proof (intro conjI)
  let ?e = "test_env (Inr (response_ok (JObj [])))"
  show "WiradiusTTProvider_query ?e [] (ascii ''u'') address_rize_2 [] = ([], [])"
    by (rule remote_inapplicable) simp
  show "WiradiusTTProvider_query ?e (ascii ''k'') [] address_rize_2 [] = ([], [])"
    by (rule remote_inapplicable) simp
  show "WiradiusTTProvider_query ?e (ascii ''k'') (ascii ''u'') address_rize_1 [] = ([], [])"
    by (rule remote_inapplicable) (simp add: tt_address_rize_1)
qed


lemma query_of_fetch_failure:
  assumes "api_code \<noteq> []" "uniq_code \<noteq> []" "tt_adres_kodu a = Some t" "t \<noteq> []"
    and "fetch e w (wiradius_request api_code uniq_code a) = Inl m"
  shows "WiradiusTTProvider_query e api_code uniq_code a w
         = ([error_result m], w @ [wiradius_request api_code uniq_code a])"
  using assms by (simp add: WiradiusTTProvider_query_def opt_truthy_def try_body_def Let_def)



section \<open>The aggregate\<close>

lemma query_loop_acc:
  "query_loop e ps a acc w
     = (acc @ fst (query_loop e ps a [] w), snd (query_loop e ps a [] w))"
proof (induction ps arbitrary: acc w)
  case Nil
  show ?case by simp
next
  case (Cons p ps)
  obtain res w' where q: "query e p a w = (res, w')"
    by (cases "query e p a w")
  have "query_loop e (p # ps) a acc w = query_loop e ps a (acc @ res) w'"
    by (simp add: q)
  also have "\<dots> = ((acc @ res) @ fst (query_loop e ps a [] w'), snd (query_loop e ps a [] w'))"
    by (rule Cons.IH)
  also have "\<dots> = (acc @ fst (query_loop e ps a res w'), snd (query_loop e ps a res w'))"
    by (simp add: Cons.IH [of res w'])
  finally show ?case by (simp add: q)
qed

lemma query_loop_Cons:
  "query_loop e (p # ps) a [] w
     = (fst (query e p a w) @ fst (query_loop e ps a [] (snd (query e p a w))),
        snd (query_loop e ps a [] (snd (query e p a w))))"
proof -
  obtain res w' where q: "query e p a w = (res, w')"
    by (cases "query e p a w")
  have "query_loop e (p # ps) a [] w = query_loop e ps a res w'"
    by (simp add: q)
  then show ?thesis
    by (simp add: q query_loop_acc [of e ps a res w'])
qed

lemma query_loop_concat:
  "fst (query_loop e ps a [] w) = concat (provider_results e ps a w)"
proof (induction ps arbitrary: w)
  case Nil
  show ?case by simp
next
  case (Cons p ps)
  show ?case by (simp add: query_loop_Cons Cons.IH del: query_loop.simps)
qed

lemma provider_results_length: "length (provider_results e ps a w) = length ps"
  by (induction ps arbitrary: w) simp_all

lemma query_loop_append:
  "query_loop e (ps1 @ ps2) a [] w
     = (fst (query_loop e ps1 a [] w)
          @ fst (query_loop e ps2 a [] (snd (query_loop e ps1 a [] w))),
        snd (query_loop e ps2 a [] (snd (query_loop e ps1 a [] w))))"
proof (induction ps1 arbitrary: w)
  case Nil
  show ?case by simp
next
  case (Cons p ps1)
  have "query_loop e ((p # ps1) @ ps2) a [] w = query_loop e (p # (ps1 @ ps2)) a [] w"
    by simp
  also have "\<dots> = (fst (query e p a w) @ fst (query_loop e (ps1 @ ps2) a [] (snd (query e p a w))),
        snd (query_loop e (ps1 @ ps2) a [] (snd (query e p a w))))"
    by (rule query_loop_Cons)
  finally show ?case
    by (simp add: Cons.IH query_loop_Cons [of e p ps1] del: query_loop.simps)
qed

text \<open>
  C4. The aggregate built by the loop is the concatenation of the providers' result lists
  in the order of the provider list, so its length is the sum of their lengths. Whatever
  a provider returns (an empty list or a \<open>Hata\<close> result included), the providers
  after it are still called and their results follow it in the aggregate.
\<close>

theorem aggregate_is_concatenation:
  "fst (query_loop e ps a [] w) = concat (provider_results e ps a w)
   \<and> length (fst (query_loop e ps a [] w))
       = sum_list (map length (provider_results e ps a w))
   \<and> length (provider_results e ps a w) = length ps
   \<and> fst (query_loop e (ps1 @ p # ps2) a [] w)
       = fst (query_loop e ps1 a [] w)
         @ fst (query e p a (snd (query_loop e ps1 a [] w)))
         @ fst (query_loop e ps2 a []
                  (snd (query e p a (snd (query_loop e ps1 a [] w)))))"
proof (intro conjI)
  show "fst (query_loop e ps a [] w) = concat (provider_results e ps a w)"
    by (rule query_loop_concat)
  then show "length (fst (query_loop e ps a [] w))
       = sum_list (map length (provider_results e ps a w))"
    by (simp add: length_concat)
  show "length (provider_results e ps a w) = length ps"
    by (rule provider_results_length)
  show "fst (query_loop e (ps1 @ p # ps2) a [] w)
       = fst (query_loop e ps1 a [] w)
         @ fst (query e p a (snd (query_loop e ps1 a [] w)))
         @ fst (query_loop e ps2 a []
                  (snd (query e p a (snd (query_loop e ps1 a [] w)))))"
    by (simp add: query_loop_append [of e ps1 "p # ps2"] query_loop_Cons del: query_loop.simps)
qed

lemma LinkOut_query_loop: "query_loop e [LinkOutProvider] a [] w = (LinkOutProvider_query a, w)"
  by simp

lemma Mock_query_loop: "query_loop e [MockProvider] a [] w = (MockProvider_query e a, w)"
  by simp

theorem aggregate_is_concatenation_witness:
  "fst (query_loop (test_env (Inl (Timeout (ascii ''timed out''))))
          [MockProvider, WiradiusTTProvider (ascii ''k'') (ascii ''u''), LinkOutProvider]
          address_rize_2 [] [])
     = MockProvider_query (test_env (Inl (Timeout (ascii ''timed out'')))) address_rize_2
       @ [error_result (ascii ''timed out'')]
       @ LinkOutProvider_query address_rize_2
   \<and> fst (query_loop (test_env (Inl (Timeout (ascii ''timed out''))))
          [MockProvider, WiradiusTTProvider [] [], LinkOutProvider]
          address_rize_2 [] [])
     = MockProvider_query (test_env (Inl (Timeout (ascii ''timed out'')))) address_rize_2
       @ LinkOutProvider_query address_rize_2"
proof (intro conjI)
  let ?e = "test_env (Inl (Timeout (ascii ''timed out'')))"
  have k: "ascii ''k'' \<noteq> []" and u: "ascii ''u'' \<noteq> []" and t: "ascii ''1234567890'' \<noteq> []"
    by (simp_all add: ascii_def)
  have f: "fetch ?e [] (wiradius_request (ascii ''k'') (ascii ''u'') address_rize_2)
             = Inl (ascii ''timed out'')"
    by (simp add: fetch_def requests_post_test_env)
  have q1: "query ?e (WiradiusTTProvider (ascii ''k'') (ascii ''u'')) address_rize_2 []
          = ([error_result (ascii ''timed out'')],
             [wiradius_request (ascii ''k'') (ascii ''u'') address_rize_2])"
    using query_of_fetch_failure [OF k u tt_address_rize_2 t f] by simp
  have q2: "query ?e (WiradiusTTProvider [] []) address_rize_2 [] = ([], [])"
    by (simp add: WiradiusTTProvider_query_def)
  note A = aggregate_is_concatenation [of ?e _ address_rize_2 "[]" "[MockProvider]" _
      "[LinkOutProvider]", THEN conjunct2, THEN conjunct2, THEN conjunct2]
  show "fst (query_loop ?e
          [MockProvider, WiradiusTTProvider (ascii ''k'') (ascii ''u''), LinkOutProvider]
          address_rize_2 [] [])
     = MockProvider_query ?e address_rize_2 @ [error_result (ascii ''timed out'')]
       @ LinkOutProvider_query address_rize_2"
    using A [of "WiradiusTTProvider (ascii ''k'') (ascii ''u'')"]
    by (simp only: append_Cons append_Nil Mock_query_loop LinkOut_query_loop q1 fst_conv snd_conv)
  show "fst (query_loop ?e [MockProvider, WiradiusTTProvider [] [], LinkOutProvider]
          address_rize_2 [] [])
     = MockProvider_query ?e address_rize_2 @ LinkOutProvider_query address_rize_2"
    using A [of "WiradiusTTProvider [] []"]
    by (simp only: append_Cons append_Nil Mock_query_loop LinkOut_query_loop q2 fst_conv snd_conv)
qed

section \<open>Address validation\<close>

lemma dropWhile_all_iff: "(\<forall>x\<in>set (dropWhile P xs). P x) \<longleftrightarrow> (\<forall>x\<in>set xs. P x)"
proof
  assume a: "\<forall>x\<in>set (dropWhile P xs). P x"
  have "dropWhile P xs = []"
  proof (rule ccontr)
    assume n: "dropWhile P xs \<noteq> []"
    then have "\<not> P (hd (dropWhile P xs))" by (rule hd_dropWhile)
    moreover have "hd (dropWhile P xs) \<in> set (dropWhile P xs)" using n by simp
    ultimately show False using a by blast
  qed
  then show "\<forall>x\<in>set xs. P x" by simp
next
  assume "\<forall>x\<in>set xs. P x"
  then show "\<forall>x\<in>set (dropWhile P xs). P x" by (meson in_mono set_dropWhileD)
qed

lemma str_strip_empty_iff: "str_strip s = [] \<longleftrightarrow> list_all str_isspace s"
proof -
  have "str_strip s = [] \<longleftrightarrow> dropWhile str_isspace (rev (dropWhile str_isspace s)) = []"
    by (simp only: str_strip_def rev_is_Nil_conv)
  also have "\<dots> \<longleftrightarrow> (\<forall>x\<in>set (rev (dropWhile str_isspace s)). str_isspace x)"
    by (rule dropWhile_eq_Nil_conv)
  also have "\<dots> \<longleftrightarrow> (\<forall>x\<in>set (dropWhile str_isspace s). str_isspace x)"
    by (simp only: set_rev)
  also have "\<dots> \<longleftrightarrow> (\<forall>x\<in>set s. str_isspace x)"
    by (rule dropWhile_all_iff)
  finally show ?thesis by (simp add: list_all_iff)
qed

lemma str_strip_hd: "str_strip s \<noteq> [] \<Longrightarrow> \<not> str_isspace (hd (str_strip s))"
proof -
  assume n: "str_strip s \<noteq> []"
  let ?d = "dropWhile str_isspace s"
  have dn: "?d \<noteq> []"
  proof
    assume e: "?d = []"
    have "str_strip s = []" unfolding str_strip_def e by simp
    with n show False by simp
  qed
  have "str_strip s = rev (dropWhile str_isspace (rev ?d))" by (simp add: str_strip_def)
  obtain x ys where d: "?d = x # ys" using dn by (cases ?d) auto
  have nx: "\<not> str_isspace x" using hd_dropWhile [OF dn] d by simp
  have "rev ?d = rev ys @ [x]" by (simp add: d)
  then have "dropWhile str_isspace (rev ?d) = dropWhile str_isspace (rev ys) @ [x]"
    using nx by (simp add: dropWhile_append3)
  then have "str_strip s = x # rev (dropWhile str_isspace (rev ys))"
    by (simp add: str_strip_def)
  then show ?thesis using nx by simp
qed

lemma str_strip_last: "str_strip s \<noteq> [] \<Longrightarrow> \<not> str_isspace (last (str_strip s))"
proof -
  assume n: "str_strip s \<noteq> []"
  let ?r = "dropWhile str_isspace (rev (dropWhile str_isspace s))"
  have rn: "?r \<noteq> []" using n by (simp add: str_strip_def)
  have "last (str_strip s) = hd ?r" using rn by (simp add: str_strip_def last_rev)
  then show ?thesis using hd_dropWhile [OF rn] by simp
qed

lemma dropWhile_hd_id: "xs \<noteq> [] \<Longrightarrow> \<not> P (hd xs) \<Longrightarrow> dropWhile P xs = xs"
  by (cases xs) auto

lemma str_strip_idem: "str_strip (str_strip s) = str_strip s"
proof (cases "str_strip s = []")
  case True
  have "str_strip [] = []" by (simp add: str_strip_def)
  then show ?thesis by (simp add: True)
next
  case False
  let ?t = "str_strip s"
  have h: "\<not> str_isspace (hd ?t)" by (rule str_strip_hd [OF False])
  have l: "\<not> str_isspace (last ?t)" by (rule str_strip_last [OF False])
  have 1: "dropWhile str_isspace ?t = ?t"
    by (rule dropWhile_hd_id [of "str_strip s" str_isspace, OF False h])
  have rn: "rev ?t \<noteq> []" using False by simp
  have "hd (rev ?t) = last ?t" using False by (simp only: hd_rev)
  then have "\<not> str_isspace (hd (rev ?t))" using l by simp
  then have 2: "dropWhile str_isspace (rev ?t) = rev ?t"
    by (rule dropWhile_hd_id [of "rev (str_strip s)" str_isspace, OF rn])
  have "str_strip ?t = rev (dropWhile str_isspace (rev (dropWhile str_isspace ?t)))"
    by (simp add: str_strip_def)
  also have "\<dots> = ?t" by (simp only: 1 2 rev_rev_ident)
  finally show ?thesis .
qed


lemma non_empty_eq:
  "non_empty v = (if str_strip v = [] then Inl (ascii ''Bu alan zorunludur'') else Inr (str_strip v))"
  by (simp add: non_empty_def Let_def)

lemma Address_new_eq:
  "Address_new i c m s b d t =
     (if str_strip i \<noteq> [] \<and> str_strip c \<noteq> []
      then Inr \<lparr>il = str_strip i, ilce = str_strip c, mahalle = m, cadde_sokak = s,
                bina_no = b, daire = d, tt_adres_kodu = t\<rparr>
      else Inl (ValidationError ((if str_strip i = [] then [ascii ''il''] else [])
                                 @ (if str_strip c = [] then [ascii ''ilce''] else []))))"
  by (simp add: Address_new_def non_empty_eq)

text \<open>
  C6. \<open>Address\<close> construction succeeds exactly when province and district are
  non-empty after \<open>strip\<close>, and stores the stripped strings, which neither start nor
  end with whitespace. When either is empty or whitespace only, construction fails with a
  \<open>ValidationError\<close> naming the failing fields, and the handler returns that error
  with the request log unchanged: no provider has run and there are no results.
\<close>

theorem address_validation:
  "(str_strip i \<noteq> [] \<and> str_strip c \<noteq> [] \<longrightarrow>
      Address_new i c m s b d t =
        Inr \<lparr>il = str_strip i, ilce = str_strip c, mahalle = m, cadde_sokak = s,
             bina_no = b, daire = d, tt_adres_kodu = t\<rparr>
      \<and> \<not> str_isspace (hd (str_strip i)) \<and> \<not> str_isspace (last (str_strip i))
      \<and> \<not> str_isspace (hd (str_strip c)) \<and> \<not> str_isspace (last (str_strip c)))
   \<and> (str_strip i = [] \<or> str_strip c = [] \<longrightarrow>
        Address_new i c m s b d t =
          Inl (ValidationError ((if str_strip i = [] then [ascii ''il''] else [])
                                @ (if str_strip c = [] then [ascii ''ilce''] else [])))
      \<and> submitted e i c mh cs bn dr tk ka ku w =
          (Inl (ValidationError ((if str_strip i = [] then [ascii ''il''] else [])
                                 @ (if str_strip c = [] then [ascii ''ilce''] else []))), w))
   \<and> (str_strip i = [] \<longleftrightarrow> list_all str_isspace i)
   \<and> (str_strip c = [] \<longleftrightarrow> list_all str_isspace c)"
proof (intro conjI impI)
  assume n: "str_strip i \<noteq> [] \<and> str_strip c \<noteq> []"
  then show "Address_new i c m s b d t =
        Inr \<lparr>il = str_strip i, ilce = str_strip c, mahalle = m, cadde_sokak = s,
             bina_no = b, daire = d, tt_adres_kodu = t\<rparr>"
    by (simp add: Address_new_eq)
  from n show "\<not> str_isspace (hd (str_strip i))" by (simp add: str_strip_hd)
  from n show "\<not> str_isspace (last (str_strip i))" by (simp add: str_strip_last)
  from n show "\<not> str_isspace (hd (str_strip c))" by (simp add: str_strip_hd)
  from n show "\<not> str_isspace (last (str_strip c))" by (simp add: str_strip_last)
next
  assume b: "str_strip i = [] \<or> str_strip c = []"
  then show "Address_new i c m s b d t =
          Inl (ValidationError ((if str_strip i = [] then [ascii ''il''] else [])
                                @ (if str_strip c = [] then [ascii ''ilce''] else [])))"
    by (auto simp: Address_new_eq)
  from b have "Address_new i c (Some mh) (Some cs) (Some bn) (Some dr) (Some tk) =
          Inl (ValidationError ((if str_strip i = [] then [ascii ''il''] else [])
                                @ (if str_strip c = [] then [ascii ''ilce''] else [])))"
    by (auto simp: Address_new_eq)
  then show "submitted e i c mh cs bn dr tk ka ku w =
          (Inl (ValidationError ((if str_strip i = [] then [ascii ''il''] else [])
                                 @ (if str_strip c = [] then [ascii ''ilce''] else []))), w)"
    by (simp add: submitted_def)
next
  show "str_strip i = [] \<longleftrightarrow> list_all str_isspace i" by (rule str_strip_empty_iff)
  show "str_strip c = [] \<longleftrightarrow> list_all str_isspace c" by (rule str_strip_empty_iff)
qed

lemma strip_Rize: "str_strip (ascii ''  Rize '') = ascii ''Rize''"
  by (simp add: str_strip_def str_isspace_def ascii_def)

lemma strip_Merkez: "str_strip (ascii ''Merkez'') = ascii ''Merkez''"
  by (simp add: str_strip_def str_isspace_def ascii_def)

lemma strip_blank: "str_strip (ascii ''   '') = []"
  by (simp add: str_strip_def str_isspace_def ascii_def)

lemma ascii_Rize_nonempty: "ascii ''Rize'' \<noteq> []" "ascii ''Merkez'' \<noteq> []"
  by (simp_all add: ascii_def)

theorem address_validation_witness:
  "Address_new (ascii ''  Rize '') (ascii ''Merkez'') (Some []) (Some []) (Some []) (Some [])
      (Some []) =
     Inr \<lparr>il = ascii ''Rize'', ilce = ascii ''Merkez'', mahalle = Some [],
          cadde_sokak = Some [], bina_no = Some [], daire = Some [], tt_adres_kodu = Some []\<rparr>
   \<and> Address_new (ascii ''   '') (ascii ''Merkez'') (Some []) (Some []) (Some []) (Some [])
      (Some []) = Inl (ValidationError [ascii ''il''])
   \<and> submitted (test_env (Inr (response_ok (JObj [])))) (ascii ''   '') (ascii ''Merkez'')
        [] [] [] [] (ascii ''1234567890'') (ascii ''k'') (ascii ''u'') []
       = (Inl (ValidationError [ascii ''il'']), [])"
proof (intro conjI)
  note ok = address_validation [of "ascii ''  Rize ''" "ascii ''Merkez''" "Some []" "Some []"
      "Some []" "Some []" "Some []", THEN conjunct1, rule_format, THEN conjunct1]
  note bad = address_validation [of "ascii ''   ''" "ascii ''Merkez''" "Some []" "Some []"
      "Some []" "Some []" "Some []" "test_env (Inr (response_ok (JObj [])))" "[]" "[]" "[]" "[]"
      "ascii ''1234567890''" "ascii ''k''" "ascii ''u''" "[]",
      THEN conjunct2, THEN conjunct1, rule_format]
  have n: "str_strip (ascii ''  Rize '') \<noteq> [] \<and> str_strip (ascii ''Merkez'') \<noteq> []"
    by (simp only: strip_Rize strip_Merkez ascii_Rize_nonempty simp_thms)
  have b: "str_strip (ascii ''   '') = [] \<or> str_strip (ascii ''Merkez'') = []"
    by (simp only: strip_blank simp_thms)
  show "Address_new (ascii ''  Rize '') (ascii ''Merkez'') (Some []) (Some []) (Some []) (Some [])
      (Some []) =
     Inr \<lparr>il = ascii ''Rize'', ilce = ascii ''Merkez'', mahalle = Some [],
          cadde_sokak = Some [], bina_no = Some [], daire = Some [], tt_adres_kodu = Some []\<rparr>"
    using ok [OF n] by (simp only: strip_Rize strip_Merkez)
  show "Address_new (ascii ''   '') (ascii ''Merkez'') (Some []) (Some []) (Some []) (Some [])
      (Some []) = Inl (ValidationError [ascii ''il''])"
    using bad [OF b, THEN conjunct1] ascii_Rize_nonempty(2)
    by (simp only: strip_blank strip_Merkez if_True if_False append_Nil2 simp_thms)
  show "submitted (test_env (Inr (response_ok (JObj [])))) (ascii ''   '') (ascii ''Merkez'')
        [] [] [] [] (ascii ''1234567890'') (ascii ''k'') (ascii ''u'') []
       = (Inl (ValidationError [ascii ''il'']), [])"
    using bad [OF b, THEN conjunct2] ascii_Rize_nonempty(2)
    by (simp only: strip_blank strip_Merkez if_True if_False append_Nil2 simp_thms)
qed

section \<open>WiradiusTTProvider: results built from the upstream body\<close>


lemma query_of_try_body:
  assumes "api_code \<noteq> []" "uniq_code \<noteq> []" "tt_adres_kodu a = Some t" "t \<noteq> []"
  shows "WiradiusTTProvider_query e api_code uniq_code a w
          = ((case try_body e w (wiradius_request api_code uniq_code a) of
                Inr r \<Rightarrow> [r] | Inl m \<Rightarrow> [error_result m]),
             w @ [wiradius_request api_code uniq_code a])"
  using assms
  by (simp add: WiradiusTTProvider_query_def opt_truthy_def Let_def split: sum.split)

lemma parse_body_object:
  assumes "field_float e (py_or (dict_get d (ascii ''max_down'')) (dict_get d (ascii ''download''))) = Some dn"
    and "field_float e (py_or (dict_get d (ascii ''max_up'')) (dict_get d (ascii ''upload''))) = Some up"
    and "field_bool e (dict_get d (ascii ''port_available'')) = Some pa"
  shows "parse_body e (JObj d) =
     Inr \<lparr>provider = WiradiusTTProvider_name,
          technology = py_str e (py_or (py_or (dict_get d (ascii ''technology''))
                                              (dict_get d (ascii ''tech'')))
                                       (JStr (ascii ''Belirsiz''))),
          max_down_mbps = dn, max_up_mbps = up, port_available = pa, raw = d\<rparr>"
  using assms by (simp add: parse_body_def InfraResult_new_def Let_def)

lemma parse_body_cases:
  "(\<exists>m. parse_body e data = Inl m)
   \<or> (\<exists>d dn up pa. data = JObj d
        \<and> field_float e (py_or (dict_get d (ascii ''max_down'')) (dict_get d (ascii ''download''))) = Some dn
        \<and> field_float e (py_or (dict_get d (ascii ''max_up'')) (dict_get d (ascii ''upload''))) = Some up
        \<and> field_bool e (dict_get d (ascii ''port_available'')) = Some pa
        \<and> parse_body e data =
            Inr \<lparr>provider = WiradiusTTProvider_name,
                 technology = py_str e (py_or (py_or (dict_get d (ascii ''technology''))
                                                     (dict_get d (ascii ''tech'')))
                                              (JStr (ascii ''Belirsiz''))),
                 max_down_mbps = dn, max_up_mbps = up, port_available = pa, raw = d\<rparr>)"
proof (cases data)
  case (JObj d)
  let ?fd = "field_float e (py_or (dict_get d (ascii ''max_down'')) (dict_get d (ascii ''download'')))"
  let ?fu = "field_float e (py_or (dict_get d (ascii ''max_up'')) (dict_get d (ascii ''upload'')))"
  let ?fp = "field_bool e (dict_get d (ascii ''port_available''))"
  show ?thesis
  proof (cases "?fd = None \<or> ?fu = None \<or> ?fp = None")
    case True
    then have "\<exists>m. parse_body e (JObj d) = Inl m"
      by (auto simp: parse_body_def InfraResult_new_def Let_def split: option.split)
    then show ?thesis by (simp add: JObj)
  next
    case False
    then obtain dn up pa where v: "?fd = Some dn" "?fu = Some up" "?fp = Some pa"
      by auto
    show ?thesis
      using JObj v parse_body_object [OF v] by blast
  qed
qed (simp_all add: parse_body_def)


lemma field_float_nonneg:
  assumes "nonneg_or_null v" and "field_float e v = Some x"
  shows "case x of None \<Rightarrow> True | Some y \<Rightarrow> 0 \<le> y"
  using assms by (cases v) (auto simp: field_float_def)

lemma error_result_nonneg: "numeric_fields_nonneg (error_result m)"
  by (simp add: numeric_fields_nonneg_def error_result_def)

lemma error_result_technology: "technology (error_result m) \<noteq> []"
  by (simp add: error_result_def ascii_def)

lemma truthy_tech:
  "truthy (py_or (py_or a b) (JStr (ascii ''Belirsiz'')))"
  by (simp add: py_or_def ascii_def)

lemma py_str_truthy_nonempty:
  assumes "truthy v" and "\<forall>u. str_other e u \<noteq> []"
  shows "py_str e v \<noteq> []"
  using assms by (cases v) (simp_all add: py_str_def)

lemma Mock_nonneg: "list_all numeric_fields_nonneg (MockProvider_query e a)"
  by (simp add: MockProvider_query_eq numeric_fields_nonneg_def)

lemma Mock_technology: "list_all (\<lambda>r. technology r \<noteq> []) (MockProvider_query e a)"
  by (simp add: MockProvider_query_eq ascii_def)

lemma LinkOut_nonneg: "list_all numeric_fields_nonneg (LinkOutProvider_query a)"
  by (simp add: LinkOutProvider_query_def numeric_fields_nonneg_def)

lemma LinkOut_technology: "list_all (\<lambda>r. technology r \<noteq> []) (LinkOutProvider_query a)"
  by (simp add: LinkOutProvider_query_def ascii_def)

lemma Wiradius_results_cases:
  "fst (WiradiusTTProvider_query e api_code uniq_code a w) = []
   \<or> (\<exists>m. fst (WiradiusTTProvider_query e api_code uniq_code a w) = [error_result m])
   \<or> (\<exists>d dn up pa. fetch e w (wiradius_request api_code uniq_code a) = Inr (JObj d)
        \<and> field_float e (py_or (dict_get d (ascii ''max_down'')) (dict_get d (ascii ''download''))) = Some dn
        \<and> field_float e (py_or (dict_get d (ascii ''max_up'')) (dict_get d (ascii ''upload''))) = Some up
        \<and> field_bool e (dict_get d (ascii ''port_available'')) = Some pa
        \<and> fst (WiradiusTTProvider_query e api_code uniq_code a w) =
            [\<lparr>provider = WiradiusTTProvider_name,
              technology = py_str e (py_or (py_or (dict_get d (ascii ''technology''))
                                                  (dict_get d (ascii ''tech'')))
                                           (JStr (ascii ''Belirsiz''))),
              max_down_mbps = dn, max_up_mbps = up, port_available = pa, raw = d\<rparr>])"
proof (cases "api_code \<noteq> [] \<and> uniq_code \<noteq> [] \<and> opt_truthy (tt_adres_kodu a)")
  case False
  then have "fst (WiradiusTTProvider_query e api_code uniq_code a w) = []"
    by (simp add: WiradiusTTProvider_query_def)
  then show ?thesis by simp
next
  case True
  let ?req = "wiradius_request api_code uniq_code a"
  have q: "fst (WiradiusTTProvider_query e api_code uniq_code a w)
        = (case try_body e w ?req of Inr r \<Rightarrow> [r] | Inl m \<Rightarrow> [error_result m])"
    using True by (simp add: WiradiusTTProvider_query_def Let_def split: sum.split)
  show ?thesis
  proof (cases "fetch e w ?req")
    case (Inl m)
    then have "fst (WiradiusTTProvider_query e api_code uniq_code a w) = [error_result m]"
      by (simp add: q try_body_def)
    then show ?thesis by blast
  next
    case (Inr data)
    have t: "try_body e w ?req = parse_body e data"
      by (simp add: try_body_def Inr)
    from parse_body_cases [of e data] show ?thesis
    proof (elim disjE exE conjE)
      fix m assume "parse_body e data = Inl m"
      then have "fst (WiradiusTTProvider_query e api_code uniq_code a w) = [error_result m]"
        by (simp add: q t)
      then show ?thesis by blast
    next
      fix d dn up pa
      assume d: "data = JObj d"
        and v: "field_float e (py_or (dict_get d (ascii ''max_down'')) (dict_get d (ascii ''download''))) = Some dn"
          "field_float e (py_or (dict_get d (ascii ''max_up'')) (dict_get d (ascii ''upload''))) = Some up"
          "field_bool e (dict_get d (ascii ''port_available'')) = Some pa"
        and r: "parse_body e data =
            Inr \<lparr>provider = WiradiusTTProvider_name,
                 technology = py_str e (py_or (py_or (dict_get d (ascii ''technology''))
                                                     (dict_get d (ascii ''tech'')))
                                              (JStr (ascii ''Belirsiz''))),
                 max_down_mbps = dn, max_up_mbps = up, port_available = pa, raw = d\<rparr>"
      have f: "fetch e w ?req = Inr (JObj d)" using Inr d by simp
      have "fst (WiradiusTTProvider_query e api_code uniq_code a w) =
            [\<lparr>provider = WiradiusTTProvider_name,
              technology = py_str e (py_or (py_or (dict_get d (ascii ''technology''))
                                                  (dict_get d (ascii ''tech'')))
                                           (JStr (ascii ''Belirsiz''))),
              max_down_mbps = dn, max_up_mbps = up, port_available = pa, raw = d\<rparr>]"
        by (simp add: q t r)
      with f v show ?thesis by blast
    qed
  qed
qed

text \<open>
  C5, as amended. Every result has a technology, a required field of the record, and it
  is never the empty string (for the Wiradius provider: as long as \<open>str\<close> of a value
  other than a string is never empty). The speeds of every \<open>MockProvider\<close> and
  \<open>LinkOutProvider\<close> result are non-negative, and so are those of every result of the
  Wiradius provider when the download and upload values it selects from the upstream body
  are \<open>null\<close> or non-negative numbers. The provider has no sign check of its own.
\<close>

theorem numeric_fields_as_upstream:
  "list_all numeric_fields_nonneg (MockProvider_query e a)
   \<and> list_all (\<lambda>r. technology r \<noteq> []) (MockProvider_query e a)
   \<and> list_all numeric_fields_nonneg (LinkOutProvider_query a)
   \<and> list_all (\<lambda>r. technology r \<noteq> []) (LinkOutProvider_query a)
   \<and> ((\<forall>d. fetch e w (wiradius_request api_code uniq_code a) = Inr (JObj d) \<longrightarrow>
          nonneg_or_null (py_or (dict_get d (ascii ''max_down''))
                                (dict_get d (ascii ''download'')))
          \<and> nonneg_or_null (py_or (dict_get d (ascii ''max_up''))
                                  (dict_get d (ascii ''upload''))))
        \<longrightarrow> list_all numeric_fields_nonneg
              (fst (WiradiusTTProvider_query e api_code uniq_code a w)))
   \<and> ((\<forall>u. str_other e u \<noteq> [])
        \<longrightarrow> list_all (\<lambda>r. technology r \<noteq> [])
              (fst (WiradiusTTProvider_query e api_code uniq_code a w)))"
proof (intro conjI impI)
  show "list_all numeric_fields_nonneg (MockProvider_query e a)" by (rule Mock_nonneg)
  show "list_all (\<lambda>r. technology r \<noteq> []) (MockProvider_query e a)" by (rule Mock_technology)
  show "list_all numeric_fields_nonneg (LinkOutProvider_query a)" by (rule LinkOut_nonneg)
  show "list_all (\<lambda>r. technology r \<noteq> []) (LinkOutProvider_query a)"
    by (rule LinkOut_technology)
next
  let ?res = "fst (WiradiusTTProvider_query e api_code uniq_code a w)"
  assume h: "\<forall>d. fetch e w (wiradius_request api_code uniq_code a) = Inr (JObj d) \<longrightarrow>
          nonneg_or_null (py_or (dict_get d (ascii ''max_down''))
                                (dict_get d (ascii ''download'')))
          \<and> nonneg_or_null (py_or (dict_get d (ascii ''max_up''))
                                  (dict_get d (ascii ''upload'')))"
  from Wiradius_results_cases [of e api_code uniq_code a w]
  show "list_all numeric_fields_nonneg ?res"
  proof (elim disjE exE conjE)
    assume "?res = []"
    then show ?thesis by simp
  next
    fix m assume "?res = [error_result m]"
    then show ?thesis by (simp add: error_result_nonneg)
  next
    fix d dn up pa
    assume f: "fetch e w (wiradius_request api_code uniq_code a) = Inr (JObj d)"
      and vd: "field_float e (py_or (dict_get d (ascii ''max_down'')) (dict_get d (ascii ''download''))) = Some dn"
      and vu: "field_float e (py_or (dict_get d (ascii ''max_up'')) (dict_get d (ascii ''upload''))) = Some up"
      and r: "?res =
            [\<lparr>provider = WiradiusTTProvider_name,
              technology = py_str e (py_or (py_or (dict_get d (ascii ''technology''))
                                                  (dict_get d (ascii ''tech'')))
                                           (JStr (ascii ''Belirsiz''))),
              max_down_mbps = dn, max_up_mbps = up, port_available = pa, raw = d\<rparr>]"
    from h f have n: "nonneg_or_null (py_or (dict_get d (ascii ''max_down''))
                                (dict_get d (ascii ''download'')))"
      "nonneg_or_null (py_or (dict_get d (ascii ''max_up'')) (dict_get d (ascii ''upload'')))"
      by blast+
    have "case dn of None \<Rightarrow> True | Some y \<Rightarrow> 0 \<le> y"
      by (rule field_float_nonneg [OF n(1) vd])
    moreover have "case up of None \<Rightarrow> True | Some y \<Rightarrow> 0 \<le> y"
      by (rule field_float_nonneg [OF n(2) vu])
    ultimately show ?thesis by (simp add: r numeric_fields_nonneg_def)
  qed
next
  let ?res = "fst (WiradiusTTProvider_query e api_code uniq_code a w)"
  assume s: "\<forall>u. str_other e u \<noteq> []"
  from Wiradius_results_cases [of e api_code uniq_code a w]
  show "list_all (\<lambda>r. technology r \<noteq> []) ?res"
  proof (elim disjE exE conjE)
    assume "?res = []"
    then show ?thesis by simp
  next
    fix m assume "?res = [error_result m]"
    then show ?thesis by (simp add: error_result_technology)
  next
    fix d dn up pa
    assume r: "?res =
            [\<lparr>provider = WiradiusTTProvider_name,
              technology = py_str e (py_or (py_or (dict_get d (ascii ''technology''))
                                                  (dict_get d (ascii ''tech'')))
                                           (JStr (ascii ''Belirsiz''))),
              max_down_mbps = dn, max_up_mbps = up, port_available = pa, raw = d\<rparr>]"
    have "py_str e (py_or (py_or (dict_get d (ascii ''technology''))
                                 (dict_get d (ascii ''tech'')))
                          (JStr (ascii ''Belirsiz''))) \<noteq> []"
      by (rule py_str_truthy_nonempty [OF truthy_tech s])
    then show ?thesis by (simp add: r)
  qed
qed

lemma creds_nonempty:
  "ascii ''k'' \<noteq> []" "ascii ''u'' \<noteq> []" "ascii ''1234567890'' \<noteq> []"
  by (simp_all add: ascii_def)

lemma fetch_test_ok:
  "fetch (test_env (Inr (response_ok body))) w req = Inr body"
  by (simp add: fetch_def raise_for_status_def requests_post_test_env response_ok_def)

lemma query_test_ok:
  "WiradiusTTProvider_query (test_env (Inr (response_ok body))) (ascii ''k'') (ascii ''u'')
      address_rize_2 []
     = ((case parse_body (test_env (Inr (response_ok body))) body of
           Inr r \<Rightarrow> [r] | Inl m \<Rightarrow> [error_result m]),
        [wiradius_request (ascii ''k'') (ascii ''u'') address_rize_2])"
  by (simp add: query_of_try_body [OF creds_nonempty(1,2) tt_address_rize_2 creds_nonempty(3)]
      try_body_def fetch_test_ok)

lemma get_negative:
  "dict_get [(ascii ''max_down'', JInt (- 5))] (ascii ''max_down'') = JInt (- 5)"
  "dict_get [(ascii ''max_down'', JInt (- 5))] (ascii ''download'') = JNull"
  "dict_get [(ascii ''max_down'', JInt (- 5))] (ascii ''max_up'') = JNull"
  "dict_get [(ascii ''max_down'', JInt (- 5))] (ascii ''upload'') = JNull"
  "dict_get [(ascii ''max_down'', JInt (- 5))] (ascii ''port_available'') = JNull"
  "dict_get [(ascii ''max_down'', JInt (- 5))] (ascii ''technology'') = JNull"
  "dict_get [(ascii ''max_down'', JInt (- 5))] (ascii ''tech'') = JNull"
  by (simp_all add: dict_get_def ascii_def)

lemma parse_body_negative:
  "parse_body e body_negative =
     Inr \<lparr>provider = WiradiusTTProvider_name, technology = ascii ''Belirsiz'',
          max_down_mbps = Some (- 5), max_up_mbps = None, port_available = None,
          raw = [(ascii ''max_down'', JInt (- 5))]\<rparr>"
  unfolding body_negative_def
  by (subst parse_body_object [where dn = "Some (- 5)" and up = None and pa = None])
     (simp_all add: get_negative py_or_def field_float_def field_bool_def py_str_def)

text \<open>
  C5 as stated fails: an upstream body \<open>{"max_down": -5}\<close> passes validation, and
  the result carries a download speed of \<open>-5\<close>.
\<close>

theorem negative_speed_counterexample:
  "WiradiusTTProvider_query (test_env (Inr (response_ok body_negative))) (ascii ''k'')
      (ascii ''u'') address_rize_2 []
     = ([\<lparr>provider = WiradiusTTProvider_name, technology = ascii ''Belirsiz'',
          max_down_mbps = Some (- 5), max_up_mbps = None, port_available = None,
          raw = [(ascii ''max_down'', JInt (- 5))]\<rparr>],
        [wiradius_request (ascii ''k'') (ascii ''u'') address_rize_2])
   \<and> \<not> list_all numeric_fields_nonneg
        (fst (WiradiusTTProvider_query (test_env (Inr (response_ok body_negative)))
                (ascii ''k'') (ascii ''u'') address_rize_2 []))"
  by (simp add: query_test_ok parse_body_negative numeric_fields_nonneg_def)

lemma type_name_nonempty: "type_name v \<noteq> []"
  by (cases v) (simp_all add: ascii_def)

lemma get_fiber:
  "dict_get [(ascii ''tech'', JStr (ascii ''Fiber'')), (ascii ''download'', JInt 1000),
             (ascii ''max_up'', JFloat 50), (ascii ''port_available'', JBool True)]
     (ascii ''technology'') = JNull"
  "dict_get [(ascii ''tech'', JStr (ascii ''Fiber'')), (ascii ''download'', JInt 1000),
             (ascii ''max_up'', JFloat 50), (ascii ''port_available'', JBool True)]
     (ascii ''tech'') = JStr (ascii ''Fiber'')"
  "dict_get [(ascii ''tech'', JStr (ascii ''Fiber'')), (ascii ''download'', JInt 1000),
             (ascii ''max_up'', JFloat 50), (ascii ''port_available'', JBool True)]
     (ascii ''max_down'') = JNull"
  "dict_get [(ascii ''tech'', JStr (ascii ''Fiber'')), (ascii ''download'', JInt 1000),
             (ascii ''max_up'', JFloat 50), (ascii ''port_available'', JBool True)]
     (ascii ''download'') = JInt 1000"
  "dict_get [(ascii ''tech'', JStr (ascii ''Fiber'')), (ascii ''download'', JInt 1000),
             (ascii ''max_up'', JFloat 50), (ascii ''port_available'', JBool True)]
     (ascii ''max_up'') = JFloat 50"
  "dict_get [(ascii ''tech'', JStr (ascii ''Fiber'')), (ascii ''download'', JInt 1000),
             (ascii ''max_up'', JFloat 50), (ascii ''port_available'', JBool True)]
     (ascii ''port_available'') = JBool True"
  by (simp_all add: dict_get_def ascii_def)

theorem numeric_fields_as_upstream_witness:
  "list_all numeric_fields_nonneg
     (fst (WiradiusTTProvider_query (test_env (Inr (response_ok body_fiber))) (ascii ''k'')
             (ascii ''u'') address_rize_2 []))
   \<and> list_all (\<lambda>r. technology r \<noteq> [])
       (fst (WiradiusTTProvider_query (test_env (Inr (response_ok body_fiber))) (ascii ''k'')
               (ascii ''u'') address_rize_2 []))
   \<and> list_all numeric_fields_nonneg
       (MockProvider_query (test_env (Inr (response_ok body_fiber))) address_rize_2)"
proof -
  let ?e = "test_env (Inr (response_ok body_fiber))"
  note T = numeric_fields_as_upstream [of ?e address_rize_2 "[]" "ascii ''k''" "ascii ''u''"]
  have h1: "\<forall>d. fetch ?e [] (wiradius_request (ascii ''k'') (ascii ''u'') address_rize_2)
                = Inr (JObj d) \<longrightarrow>
          nonneg_or_null (py_or (dict_get d (ascii ''max_down''))
                                (dict_get d (ascii ''download'')))
          \<and> nonneg_or_null (py_or (dict_get d (ascii ''max_up''))
                                  (dict_get d (ascii ''upload'')))"
  proof (intro allI impI)
    fix d
    assume "fetch ?e [] (wiradius_request (ascii ''k'') (ascii ''u'') address_rize_2)
                = Inr (JObj d)"
    then have d: "d = [(ascii ''tech'', JStr (ascii ''Fiber'')), (ascii ''download'', JInt 1000),
             (ascii ''max_up'', JFloat 50), (ascii ''port_available'', JBool True)]"
      by (simp add: fetch_test_ok body_fiber_def)
    show "nonneg_or_null (py_or (dict_get d (ascii ''max_down''))
                                (dict_get d (ascii ''download'')))
          \<and> nonneg_or_null (py_or (dict_get d (ascii ''max_up''))
                                  (dict_get d (ascii ''upload'')))"
      unfolding d by (simp add: get_fiber py_or_def)
  qed
  have h2: "\<forall>u. str_other ?e u \<noteq> []"
    by (simp add: test_env_def type_name_nonempty)
  have a: "list_all numeric_fields_nonneg (MockProvider_query ?e address_rize_2)"
    by (rule T [THEN conjunct1])
  have b: "list_all numeric_fields_nonneg
              (fst (WiradiusTTProvider_query ?e (ascii ''k'') (ascii ''u'') address_rize_2 []))"
    by (rule T [THEN conjunct2, THEN conjunct2, THEN conjunct2, THEN conjunct2,
        THEN conjunct1, THEN mp, OF h1])
  have c: "list_all (\<lambda>r. technology r \<noteq> [])
              (fst (WiradiusTTProvider_query ?e (ascii ''k'') (ascii ''u'') address_rize_2 []))"
    by (rule T [THEN conjunct2, THEN conjunct2, THEN conjunct2, THEN conjunct2,
        THEN conjunct2, THEN mp, OF h2])
  from a b c show ?thesis by (intro conjI)
qed

section \<open>WiradiusTTProvider: the fields extracted\<close>












end
